theory Spec2Isabelle
  imports Complex_Main "HOL-Library.AList"
begin

section \<open>Values and records\<close>

text \<open>
  The data layer \<open>opsdata.js\<close> keeps four collections of plain JavaScript objects. An object
  is modelled by its \<open>id\<close> property, an integer when present, and the ordered list of its
  other properties. Numbers are unbounded integers; the value \<open>undefined\<close> of an absent
  property is \<open>None\<close>.
\<close>

datatype jsval =
    JNull
  | JBool bool
  | JNum int
  | JStr string
  | JArr "jsval list"
  | JObj "(string \<times> jsval) list"

type_synonym fields = "(string \<times> jsval) list"

record item =
  rid :: "int option"
  props :: fields

text \<open>JavaScript truthiness, as \<open>a || b\<close> and \<open>if (a)\<close> test it.\<close>

fun truthy :: "jsval option \<Rightarrow> bool" where
  "truthy None = False"
| "truthy (Some JNull) = False"
| "truthy (Some (JBool b)) = b"
| "truthy (Some (JNum n)) = (n \<noteq> 0)"
| "truthy (Some (JStr s)) = (s \<noteq> [])"
| "truthy (Some (JArr xs)) = True"
| "truthy (Some (JObj ps)) = True"

text \<open>\<open>a || b\<close> on a property value.\<close>

definition js_or :: "jsval option \<Rightarrow> jsval \<Rightarrow> jsval" where
  "js_or a b = (case a of None \<Rightarrow> b | Some v \<Rightarrow> if truthy (Some v) then v else b)"

text \<open>\<open>x.id || 0\<close>.\<close>

definition id_or_0 :: "item \<Rightarrow> int" where
  "id_or_0 x = (case rid x of None \<Rightarrow> 0 | Some i \<Rightarrow> i)"

text \<open>
  \<open>Object.assign(target, source)\<close>: every property of the source is written to the target,
  in the source's order; a property the target has keeps its place, a new one goes last.
\<close>

definition assign :: "item \<Rightarrow> item \<Rightarrow> item" where
  "assign t src =
     \<lparr> rid = (case rid src of None \<Rightarrow> rid t | Some i \<Rightarrow> Some i),
       props = fold (\<lambda>(k, v). AList.update k v) (props src) (props t) \<rparr>"

section \<open>The structured store\<close>

text \<open>
  \<open>openDB\<close> creates each of the four object stores with \<open>keyPath: 'id'\<close> and
  \<open>autoIncrement: true\<close>, and a unique index \<open>papeleta\<close> on \<open>requests\<close>. An object store
  holds its rows in key order (the order a cursor visits them) and a key generator, which
  starts at 1. The behaviour of the platform's object store is the one the IndexedDB standard
  gives for these options.
\<close>

definition STORES :: "string list" where
  "STORES = [''users'', ''vehicles'', ''requests'', ''movements'']"

record objstore =
  rows :: "(int \<times> fields) list"
  keygen :: int

definition row_item :: "int \<times> fields \<Rightarrow> item" where
  "row_item r = \<lparr> rid = Some (fst r), props = snd r \<rparr>"

fun upsert :: "int \<Rightarrow> fields \<Rightarrow> (int \<times> fields) list \<Rightarrow> (int \<times> fields) list" where
  "upsert k p [] = [(k, p)]"
| "upsert k p ((k', p') # rs) =
     (if k < k' then (k, p) # (k', p') # rs
      else if k = k' then (k, p) # rs
      else (k', p') # upsert k p rs)"

text \<open>A value an index can hold as a key: a number, a string, or an array of keys.\<close>

fun valid_key :: "jsval \<Rightarrow> bool" where
  "valid_key (JNum n) = True"
| "valid_key (JStr s) = True"
| "valid_key (JArr xs) = (\<forall>x \<in> set xs. valid_key x)"
| "valid_key JNull = False"
| "valid_key (JBool b) = False"
| "valid_key (JObj ps) = False"

text \<open>The unique index refuses a row whose \<open>papeleta\<close> another row already has.\<close>

definition papeleta_clash :: "int \<Rightarrow> fields \<Rightarrow> (int \<times> fields) list \<Rightarrow> bool" where
  "papeleta_clash k p rs =
     (case map_of p ''papeleta'' of
        None \<Rightarrow> False
      | Some v \<Rightarrow> valid_key v \<and>
          list_ex (\<lambda>r. fst r \<noteq> k \<and> map_of (snd r) ''papeleta'' = Some v) rs)"

text \<open>
  \<open>os.put(value)\<close>: the key is the value's \<open>id\<close>, or the generator's number when the value has
  none; a key at or above the generator's number moves the generator past it. A refused
  request (\<open>None\<close>) aborts the transaction and changes nothing.
\<close>

definition idb_put :: "string \<Rightarrow> item \<Rightarrow> objstore \<Rightarrow> (int \<times> objstore) option" where
  "idb_put store v st =
     (let k = (case rid v of None \<Rightarrow> keygen st | Some i \<Rightarrow> i) in
      if store = ''requests'' \<and> papeleta_clash k (props v) (rows st) then None
      else Some (k, \<lparr> rows = upsert k (props v) (rows st),
                      keygen = (if keygen st \<le> k then k + 1 else keygen st) \<rparr>))"

definition idb_delete :: "int \<Rightarrow> objstore \<Rightarrow> objstore" where
  "idb_delete k st = st \<lparr> rows := filter (\<lambda>r. fst r \<noteq> k) (rows st) \<rparr>"

definition idb_clear :: "objstore \<Rightarrow> objstore" where
  "idb_clear st = st \<lparr> rows := [] \<rparr>"

section \<open>The remote endpoint as the client sees it\<close>

text \<open>The JSON body of a POST: \<open>{ op, id?, payload?, items? }\<close>.\<close>

record post_body =
  op :: string
  bid :: "int option"
  payload :: "item option"
  items :: "item list option"

datatype request = Fetch_GET string | Fetch_POST string post_body

text \<open>
  What \<open>fetch\<close> does: it rejects (\<open>NetworkError\<close>), or resolves to a response with its \<open>ok\<close>
  flag and a body that \<open>r.json()\<close> either parses or rejects (\<open>Malformed\<close>).
\<close>

datatype body = Malformed | Json jsval

datatype fetch_result = NetworkError | Response bool body

datatype error = FetchRejected | Thrown string

section \<open>State and environment\<close>

text \<open>
  The state holds the four object stores, the flat storage (one parsed array per key
  \<open>'ops_' + store\<close>), the number of steps taken so far and the requests sent to the remote
  endpoint. The environment answers what the code cannot decide: whether the structured
  store works at a given step, what the clock, the random generator and the network return.
\<close>

record world =
  idb :: "string \<Rightarrow> objstore"
  ls :: "string \<Rightarrow> item list option"
  tick :: nat
  sent :: "request list"

record env =
  ops_remote_base :: "string option"
  avail :: "nat \<Rightarrow> bool"
  clock :: "nat \<Rightarrow> string"
  full_year :: "nat \<Rightarrow> int"
  random :: "nat \<Rightarrow> real"
  net :: "request \<Rightarrow> fetch_result"

text \<open>
  \<open>tx(store, mode)\<close> resolves to the object store when the database opens and has a store of
  that name; everything else is a rejection, which each caller catches.
\<close>

definition tx :: "env \<Rightarrow> string \<Rightarrow> world \<Rightarrow> bool \<times> world" where
  "tx e store s = (store \<in> set STORES \<and> avail e (tick s), s \<lparr> tick := Suc (tick s) \<rparr>)"

definition flat_list :: "world \<Rightarrow> string \<Rightarrow> item list" where
  "flat_list s store = (case ls s store of None \<Rightarrow> [] | Some l \<Rightarrow> l)"

section \<open>The local persistence facade\<close>

text \<open>
  Each operation first tries the structured store and, when that attempt is rejected, does
  the same on the flat storage. An attempt takes one step; the clock is read at the step
  the operation has reached.
\<close>

definition getAll :: "env \<Rightarrow> string \<Rightarrow> world \<Rightarrow> item list \<times> world" where
  "getAll e store s =
     (case tx e store s of (ok, s1) \<Rightarrow>
        if ok then (map row_item (rows (idb s1 store)), s1)
        else (flat_list s1 store, s1))"

text \<open>\<open>list.length ? Math.max(...list.map(x => x.id || 0)) + 1 : 1\<close>.\<close>

definition next_flat_id :: "item list \<Rightarrow> int" where
  "next_flat_id list =
     (case map id_or_0 list of [] \<Rightarrow> 1 | n # ns \<Rightarrow> fold max ns n + 1)"

text \<open>\<open>value.createdAt = value.createdAt || new Date().toISOString()\<close>.\<close>

definition stamp_created :: "string \<Rightarrow> item \<Rightarrow> item" where
  "stamp_created now v =
     v \<lparr> props := AList.update ''createdAt''
                    (js_or (map_of (props v) ''createdAt'') (JStr now)) (props v) \<rparr>"

text \<open>
  The flat branch of \<open>put\<close>: \<open>value.id = value.id || (...)\<close>, then the record is pushed and
  the whole list stored.
\<close>

definition put_flat :: "string \<Rightarrow> item \<Rightarrow> world \<Rightarrow> int \<times> world" where
  "put_flat store v s =
     (let list = flat_list s store;
          i = (case rid v of
                 None \<Rightarrow> next_flat_id list
               | Some j \<Rightarrow> if j \<noteq> 0 then j else next_flat_id list)
      in (i, s \<lparr> ls := (ls s)(store \<mapsto> list @ [v \<lparr> rid := Some i \<rparr>]) \<rparr>))"

definition put :: "env \<Rightarrow> string \<Rightarrow> item \<Rightarrow> world \<Rightarrow> int \<times> world" where
  "put e store v0 s =
     (let v = stamp_created (clock e (tick s)) v0 in
      case tx e store s of (ok, s1) \<Rightarrow>
        if ok then
          (case idb_put store v (idb s1 store) of
             Some (k, st) \<Rightarrow> (k, s1 \<lparr> idb := (idb s1)(store := st) \<rparr>)
           | None \<Rightarrow> put_flat store v s1)
        else put_flat store v s1)"

text \<open>
  The record that \<open>find\<close> returns is changed in place, and \<open>splice(idx, 1)\<close> removes the
  one \<open>findIndex\<close> found: both touch the first match only.
\<close>

fun replace_first :: "('a \<Rightarrow> bool) \<Rightarrow> 'a \<Rightarrow> 'a list \<Rightarrow> 'a list" where
  "replace_first P y [] = []"
| "replace_first P y (x # xs) = (if P x then y # xs else x # replace_first P y xs)"

fun remove_first :: "('a \<Rightarrow> bool) \<Rightarrow> 'a list \<Rightarrow> 'a list" where
  "remove_first P [] = []"
| "remove_first P (x # xs) = (if P x then xs else x # remove_first P xs)"

text \<open>\<open>Object.assign(item, patch, { updatedAt: new Date().toISOString() })\<close>.\<close>

definition patched :: "string \<Rightarrow> item \<Rightarrow> item \<Rightarrow> item" where
  "patched now it patch =
     assign (assign it patch) \<lparr> rid = None, props = [(''updatedAt'', JStr now)] \<rparr>"

definition update :: "env \<Rightarrow> string \<Rightarrow> int \<Rightarrow> item \<Rightarrow> world \<Rightarrow> bool \<times> world" where
  "update e store i patch s =
     (case getAll e store s of (list, s1) \<Rightarrow>
        (case find (\<lambda>x. rid x = Some i) list of
           None \<Rightarrow> (False, s1)
         | Some it \<Rightarrow>
             (let it' = patched (clock e (tick s1)) it patch;
                  list' = replace_first (\<lambda>x. rid x = Some i) it' list
              in case tx e store s1 of (ok, s2) \<Rightarrow>
                   if ok then
                     (case idb_put store it' (idb s2 store) of
                        Some (k, st) \<Rightarrow> (True, s2 \<lparr> idb := (idb s2)(store := st) \<rparr>)
                      | None \<Rightarrow> (True, s2 \<lparr> ls := (ls s2)(store \<mapsto> list') \<rparr>))
                   else (True, s2 \<lparr> ls := (ls s2)(store \<mapsto> list') \<rparr>))))"

definition remove :: "env \<Rightarrow> string \<Rightarrow> int \<Rightarrow> world \<Rightarrow> bool \<times> world" where
  "remove e store i s =
     (case getAll e store s of (list, s1) \<Rightarrow>
        (case find (\<lambda>x. rid x = Some i) list of
           None \<Rightarrow> (False, s1)
         | Some it \<Rightarrow>
             (case tx e store s1 of (ok, s2) \<Rightarrow>
                if ok then
                  (True, s2 \<lparr> idb := (idb s2)(store := idb_delete i (idb s2 store)) \<rparr>)
                else
                  (True, s2 \<lparr> ls := (ls s2)(store \<mapsto>
                                 remove_first (\<lambda>x. rid x = Some i) list) \<rparr>))))"

definition clearStore :: "env \<Rightarrow> string \<Rightarrow> world \<Rightarrow> bool \<times> world" where
  "clearStore e store s =
     (case tx e store s of (ok, s1) \<Rightarrow>
        if ok then (True, s1 \<lparr> idb := (idb s1)(store := idb_clear (idb s1 store)) \<rparr>)
        else (True, s1 \<lparr> ls := (ls s1)(store := None) \<rparr>))"

text \<open>
  \<open>exportAll\<close> reads the four collections; \<open>importAll\<close> clears them and then puts every record
  of every collection, one after the other. \<open>put_each\<close> is the inner loop
  \<open>for (const item of arr) await put(s, item)\<close>, with the identifiers the calls return. The
  data is the parsed mapping from collection name to record list.
\<close>

primrec export_stores :: "env \<Rightarrow> string list \<Rightarrow> world \<Rightarrow> (string \<times> item list) list \<times> world" where
  "export_stores e [] s = ([], s)"
| "export_stores e (n # ns) s =
     (case getAll e n s of (l, s1) \<Rightarrow>
        (case export_stores e ns s1 of (rest, s2) \<Rightarrow> ((n, l) # rest, s2)))"

definition exportAll :: "env \<Rightarrow> world \<Rightarrow> (string \<times> item list) list \<times> world" where
  "exportAll e s = export_stores e STORES s"

primrec clear_stores :: "env \<Rightarrow> string list \<Rightarrow> world \<Rightarrow> world" where
  "clear_stores e [] s = s"
| "clear_stores e (n # ns) s = clear_stores e ns (snd (clearStore e n s))"

primrec put_each :: "env \<Rightarrow> string \<Rightarrow> item list \<Rightarrow> world \<Rightarrow> int list \<times> world" where
  "put_each e store [] s = ([], s)"
| "put_each e store (v # vs) s =
     (case put e store v s of (k, s1) \<Rightarrow>
        (case put_each e store vs s1 of (ks, s2) \<Rightarrow> (k # ks, s2)))"

primrec import_stores :: "env \<Rightarrow> (string \<times> item list) list \<Rightarrow> string list \<Rightarrow> world \<Rightarrow> world" where
  "import_stores e data [] s = s"
| "import_stores e data (n # ns) s =
     import_stores e data ns
       (snd (put_each e n (case map_of data n of None \<Rightarrow> [] | Some arr \<Rightarrow> arr) s))"

definition importAll :: "env \<Rightarrow> (string \<times> item list) list \<Rightarrow> world \<Rightarrow> bool \<times> world" where
  "importAll e data s = (True, import_stores e data STORES (clear_stores e STORES s))"

section \<open>Ticket numbers\<close>

definition digit_char :: "nat \<Rightarrow> char" where
  "digit_char d = ''0123456789'' ! d"

fun decimal :: "nat \<Rightarrow> string" where
  "decimal n =
     (if n < 10 then [digit_char n] else decimal (n div 10) @ [digit_char (n mod 10)])"

declare decimal.simps [simp del]

definition String_of :: "int \<Rightarrow> string" where
  "String_of i = (if i < 0 then CHR ''-'' # decimal (nat (- i)) else decimal (nat i))"

definition padStart :: "nat \<Rightarrow> char \<Rightarrow> string \<Rightarrow> string" where
  "padStart n c s = replicate (n - length s) c @ s"

text \<open>
  \<open>genPapeleta\<close>: the year is \<open>new Date().getFullYear()\<close>, the draw \<open>Math.random()\<close> a real
  number in \<open>[0, 1)\<close>.
\<close>

definition genPapeleta :: "env \<Rightarrow> world \<Rightarrow> string" where
  "genPapeleta e s =
     (let y = full_year e (tick s);
          rnd = \<lfloor>random e (tick s) * 90000\<rfloor> + 10000
      in padStart 5 (CHR ''0'') (String_of rnd) @ ''-'' @ String_of y)"



section \<open>The remote adapter and the wrappers\<close>

text \<open>
  \<open>REMOTE_BASE\<close> is \<open>window.__OPS_REMOTE_BASE__ || '/api/store'\<close>: an absent or empty override
  gives the default path.
\<close>

definition REMOTE_BASE :: "env \<Rightarrow> string" where
  "REMOTE_BASE e =
     (case ops_remote_base e of
        None \<Rightarrow> ''/api/store''
      | Some b \<Rightarrow> if b \<noteq> [] then b else ''/api/store'')"

definition remote_url :: "env \<Rightarrow> string \<Rightarrow> string" where
  "remote_url e col = REMOTE_BASE e @ ''/'' @ col"

text \<open>\<open>remoteList\<close> returns the parsed body, or \<open>null\<close> when anything fails.\<close>

definition remoteList :: "env \<Rightarrow> string \<Rightarrow> world \<Rightarrow> jsval \<times> world" where
  "remoteList e col s =
     (let rq = Fetch_GET (remote_url e col);
          s1 = s \<lparr> sent := sent s @ [rq] \<rparr>
      in case net e rq of
           NetworkError \<Rightarrow> (JNull, s1)
         | Response ok b \<Rightarrow>
             if \<not> ok then (JNull, s1)
             else (case b of Malformed \<Rightarrow> (JNull, s1) | Json v \<Rightarrow> (v, s1)))"

text \<open>
  \<open>remotePost\<close> of the data layer with the remote store: it throws when \<open>fetch\<close> rejects and
  when the response is not \<open>ok\<close>; it never reads the body.
\<close>

definition remotePost :: "env \<Rightarrow> string \<Rightarrow> post_body \<Rightarrow> world \<Rightarrow> (error + unit) \<times> world" where
  "remotePost e col b s =
     (let rq = Fetch_POST (remote_url e col) b;
          s1 = s \<lparr> sent := sent s @ [rq] \<rparr>
      in case net e rq of
           NetworkError \<Rightarrow> (Inl FetchRejected, s1)
         | Response ok _ \<Rightarrow>
             if \<not> ok then (Inl (Thrown ''Remote POST failed''), s1) else (Inr (), s1))"

text \<open>
  \<open>remotePost\<close> of the minimal data layer (the first \<open>opsdata.js\<close>): it only awaits the
  \<open>fetch\<close>.
\<close>

definition remotePost_min :: "env \<Rightarrow> string \<Rightarrow> post_body \<Rightarrow> world \<Rightarrow> (error + unit) \<times> world" where
  "remotePost_min e col b s =
     (let rq = Fetch_POST (remote_url e col) b;
          s1 = s \<lparr> sent := sent s @ [rq] \<rparr>
      in case net e rq of
           NetworkError \<Rightarrow> (Inl FetchRejected, s1)
         | Response ok _ \<Rightarrow> (Inr (), s1))"

text \<open>The outcomes of \<open>fetch\<close> on which \<open>remotePost\<close> throws.\<close>

fun post_failed :: "fetch_result \<Rightarrow> bool" where
  "post_failed NetworkError = True"
| "post_failed (Response ok b) = (\<not> ok)"

text \<open>What a list read returns: the remote array as it came, or the local records.\<close>

datatype listing = Remote_array "jsval list" | Local_items "item list"

definition listWrapper ::
  "env \<Rightarrow> string \<Rightarrow> (world \<Rightarrow> item list \<times> world) \<Rightarrow> world \<Rightarrow> listing \<times> world" where
  "listWrapper e col localFn s =
     (case (if REMOTE_BASE e \<noteq> [] then remoteList e col s else (JNull, s)) of (r, s1) \<Rightarrow>
        (case r of
           JArr xs \<Rightarrow> (Remote_array xs, s1)
         | _ \<Rightarrow> (case localFn s1 of (l, s2) \<Rightarrow> (Local_items l, s2))))"

definition add_body :: "item \<Rightarrow> post_body" where
  "add_body p = \<lparr> op = ''add'', bid = None, payload = Some p, items = None \<rparr>"

definition update_body :: "int \<Rightarrow> item \<Rightarrow> post_body" where
  "update_body i p = \<lparr> op = ''update'', bid = Some i, payload = Some p, items = None \<rparr>"

definition delete_body :: "int \<Rightarrow> post_body" where
  "delete_body i = \<lparr> op = ''delete'', bid = Some i, payload = None, items = None \<rparr>"

text \<open>The add wrapper returns \<open>true\<close> after a remote success, else what the local put returns.\<close>

definition addWrapper ::
  "env \<Rightarrow> string \<Rightarrow> item \<Rightarrow> (item \<Rightarrow> world \<Rightarrow> int \<times> world) \<Rightarrow> world \<Rightarrow> jsval \<times> world" where
  "addWrapper e col p localPutFn s =
     (if REMOTE_BASE e \<noteq> [] then
        (case remotePost e col (add_body p) s of
           (Inr _, s1) \<Rightarrow> (JBool True, s1)
         | (Inl _, s1) \<Rightarrow> (case localPutFn p s1 of (k, s2) \<Rightarrow> (JNum k, s2)))
      else (case localPutFn p s of (k, s2) \<Rightarrow> (JNum k, s2)))"

definition updateWrapper ::
  "env \<Rightarrow> string \<Rightarrow> int \<Rightarrow> item \<Rightarrow> (int \<Rightarrow> item \<Rightarrow> world \<Rightarrow> bool \<times> world) \<Rightarrow> world
     \<Rightarrow> bool \<times> world" where
  "updateWrapper e col i patch localUpdateFn s =
     (if REMOTE_BASE e \<noteq> [] then
        (case remotePost e col (update_body i patch) s of
           (Inr _, s1) \<Rightarrow> (True, s1)
         | (Inl _, s1) \<Rightarrow> localUpdateFn i patch s1)
      else localUpdateFn i patch s)"

definition deleteWrapper ::
  "env \<Rightarrow> string \<Rightarrow> int \<Rightarrow> (int \<Rightarrow> world \<Rightarrow> bool \<times> world) \<Rightarrow> world \<Rightarrow> bool \<times> world" where
  "deleteWrapper e col i localRemoveFn s =
     (if REMOTE_BASE e \<noteq> [] then
        (case remotePost e col (delete_body i) s of
           (Inr _, s1) \<Rightarrow> (True, s1)
         | (Inl _, s1) \<Rightarrow> localRemoveFn i s1)
      else localRemoveFn i s)"

text \<open>The same three wrappers in the minimal data layer, over its own \<open>remotePost\<close>.\<close>

definition addWrapper_min ::
  "env \<Rightarrow> string \<Rightarrow> item \<Rightarrow> (item \<Rightarrow> world \<Rightarrow> int \<times> world) \<Rightarrow> world \<Rightarrow> jsval \<times> world" where
  "addWrapper_min e col p localPut s =
     (if REMOTE_BASE e \<noteq> [] then
        (case remotePost_min e col (add_body p) s of
           (Inr _, s1) \<Rightarrow> (JBool True, s1)
         | (Inl _, s1) \<Rightarrow> (case localPut p s1 of (k, s2) \<Rightarrow> (JNum k, s2)))
      else (case localPut p s of (k, s2) \<Rightarrow> (JNum k, s2)))"

definition updateWrapper_min ::
  "env \<Rightarrow> string \<Rightarrow> int \<Rightarrow> item \<Rightarrow> (int \<Rightarrow> item \<Rightarrow> world \<Rightarrow> bool \<times> world) \<Rightarrow> world
     \<Rightarrow> bool \<times> world" where
  "updateWrapper_min e col i patch localUpd s =
     (if REMOTE_BASE e \<noteq> [] then
        (case remotePost_min e col (update_body i patch) s of
           (Inr _, s1) \<Rightarrow> (True, s1)
         | (Inl _, s1) \<Rightarrow> localUpd i patch s1)
      else localUpd i patch s)"

definition deleteWrapper_min ::
  "env \<Rightarrow> string \<Rightarrow> int \<Rightarrow> (int \<Rightarrow> world \<Rightarrow> bool \<times> world) \<Rightarrow> world \<Rightarrow> bool \<times> world" where
  "deleteWrapper_min e col i localDel s =
     (if REMOTE_BASE e \<noteq> [] then
        (case remotePost_min e col (delete_body i) s of
           (Inr _, s1) \<Rightarrow> (True, s1)
         | (Inl _, s1) \<Rightarrow> localDel i s1)
      else localDel i s)"

section \<open>The domain API\<close>


definition deleteUser :: "env \<Rightarrow> int \<Rightarrow> world \<Rightarrow> bool \<times> world" where
  "deleteUser e i = deleteWrapper e ''users'' i (remove e ''users'')"



text \<open>\<open>Object.assign({ estado: 'Pendiente', papeleta: genPapeleta() }, r)\<close>.\<close>

definition request_payload :: "env \<Rightarrow> world \<Rightarrow> item \<Rightarrow> item" where
  "request_payload e s r =
     assign \<lparr> rid = None,
              props = [(''estado'', JStr ''Pendiente''), (''papeleta'', JStr (genPapeleta e s))] \<rparr> r"



definition approve_patch :: item where
  "approve_patch = \<lparr> rid = None, props = [(''estado'', JStr ''Aprobado'')] \<rparr>"

text \<open>\<open>{ estado: 'Rechazado', observacion: obs || '' }\<close>.\<close>

definition reject_patch :: "string option \<Rightarrow> item" where
  "reject_patch obs =
     \<lparr> rid = None,
       props = [(''estado'', JStr ''Rechazado''),
                (''observacion'', JStr (case obs of None \<Rightarrow> [] | Some t \<Rightarrow> t))] \<rparr>"





text \<open>
  The same operations in the minimal data layer. Its object literal gives \<open>deleteUser\<close>,
  \<open>deleteVehicle\<close>, \<open>deleteRequest\<close> and \<open>deleteMovement\<close> twice, first through
  \<open>deleteWrapper\<close> and then as a plain \<open>remove\<close>; the later property is the one the object
  keeps. \<open>addUser\<close>, \<open>addVehicle\<close> and \<open>addMovement\<close> are plain \<open>put\<close>s.
\<close>

definition addUser_min :: "env \<Rightarrow> item \<Rightarrow> world \<Rightarrow> int \<times> world" where
  "addUser_min e u = put e ''users'' u"

definition deleteUser_min :: "env \<Rightarrow> int \<Rightarrow> world \<Rightarrow> bool \<times> world" where
  "deleteUser_min e i = remove e ''users'' i"

definition addVehicle_min :: "env \<Rightarrow> item \<Rightarrow> world \<Rightarrow> int \<times> world" where
  "addVehicle_min e v = put e ''vehicles'' v"

definition deleteVehicle_min :: "env \<Rightarrow> int \<Rightarrow> world \<Rightarrow> bool \<times> world" where
  "deleteVehicle_min e i = remove e ''vehicles'' i"

definition createRequest_min :: "env \<Rightarrow> item \<Rightarrow> world \<Rightarrow> jsval \<times> world" where
  "createRequest_min e r s =
     addWrapper_min e ''requests'' (request_payload e s r) (put e ''requests'') s"

definition deleteRequest_min :: "env \<Rightarrow> int \<Rightarrow> world \<Rightarrow> bool \<times> world" where
  "deleteRequest_min e i = remove e ''requests'' i"

definition approveRequest_min :: "env \<Rightarrow> int \<Rightarrow> world \<Rightarrow> bool \<times> world" where
  "approveRequest_min e i =
     updateWrapper_min e ''requests'' i approve_patch (update e ''requests'')"

definition rejectRequest_min :: "env \<Rightarrow> int \<Rightarrow> string option \<Rightarrow> world \<Rightarrow> bool \<times> world" where
  "rejectRequest_min e i obs =
     updateWrapper_min e ''requests'' i (reject_patch obs) (update e ''requests'')"

definition addMovement_min :: "env \<Rightarrow> item \<Rightarrow> world \<Rightarrow> int \<times> world" where
  "addMovement_min e m = put e ''movements'' m"

definition deleteMovement_min :: "env \<Rightarrow> int \<Rightarrow> world \<Rightarrow> bool \<times> world" where
  "deleteMovement_min e i = remove e ''movements'' i"

section \<open>The serverless handler\<close>













section \<open>Sample inputs\<close>

text \<open>
  An environment whose structured store is always up or always down and whose network
  always gives the same answer, and a small state with one user in each backend.
\<close>

definition sample_env :: "bool \<Rightarrow> fetch_result \<Rightarrow> env" where
  "sample_env up reply =
     \<lparr> ops_remote_base = None,
       avail = (\<lambda>n. up),
       clock = (\<lambda>n. ''2024-05-01T10:00:00.000Z''),
       full_year = (\<lambda>n. 2024),
       random = (\<lambda>n. 1 / 2),
       net = (\<lambda>r. reply) \<rparr>"

definition empty_world :: world where
  "empty_world =
     \<lparr> idb = (\<lambda>n. \<lparr> rows = [], keygen = 1 \<rparr>), ls = (\<lambda>n. None), tick = 0, sent = [] \<rparr>"

definition ana :: fields where
  "ana = [(''name'', JStr ''Ana''), (''createdAt'', JStr ''2024-01-01T00:00:00.000Z'')]"

definition luis :: item where
  "luis = \<lparr> rid = Some 1, props = [(''name'', JStr ''Luis''), (''createdAt'', JStr ''2024-02-02T00:00:00.000Z'')] \<rparr>"

definition sample_world :: world where
  "sample_world =
     \<lparr> idb = (\<lambda>n. if n = ''users'' then \<lparr> rows = [(1, ana)], keygen = 2 \<rparr>
                  else \<lparr> rows = [], keygen = 1 \<rparr>),
       ls = (\<lambda>n. if n = ''users'' then Some [luis] else None),
       tick = 0, sent = [] \<rparr>"

definition new_user :: item where
  "new_user = \<lparr> rid = None, props = [(''name'', JStr ''Eva'')] \<rparr>"

definition ok_reply :: fetch_result where
  "ok_reply = Response True (Json (JObj [(''ok'', JBool True)]))"

definition garbled_reply :: fetch_result where
  "garbled_reply = Response True Malformed"

definition refused_reply :: fetch_result where
  "refused_reply = Response False (Json (JObj [(''error'', JStr ''invalid op'')]))"

text \<open>A record is held by a collection when one of its two backends has it.\<close>

definition stored_in :: "world \<Rightarrow> string \<Rightarrow> item \<Rightarrow> bool" where
  "stored_in s store x =
     (x \<in> set (map row_item (rows (idb s store))) \<or> x \<in> set (flat_list s store))"


definition backdate_patch :: item where
  "backdate_patch = \<lparr> rid = None, props = [(''createdAt'', JStr ''1999-01-01T00:00:00.000Z'')] \<rparr>"





section \<open>Well-formed object stores\<close>


text \<open>No row has the \<open>papeleta\<close> of a row with another key.\<close>

definition papeleta_unique :: "(int \<times> fields) list \<Rightarrow> bool" where
  "papeleta_unique rs = list_all (\<lambda>r. \<not> papeleta_clash (fst r) (snd r) rs) rs"

definition blank_patch :: item where
  "blank_patch = \<lparr> rid = None, props = [(''createdAt'', JStr [])] \<rparr>"

text \<open>The sample state after \<open>update('users', 1, { createdAt: '' })\<close>.\<close>

definition blanked_world :: world where
  "blanked_world = snd (update (sample_env True NetworkError) ''users'' 1 blank_patch sample_world)"

section \<open>Absent identifiers\<close>

text \<open>
  C4. When the identifier matches no record of the list that \<open>getAll\<close> reads for the
  collection, \<open>update\<close> and \<open>remove\<close> return false, and neither the object stores nor the
  flat storage change.
\<close>

theorem update_remove_absent:
  assumes "\<forall>x \<in> set (fst (getAll e store s)). rid x \<noteq> Some i"
  shows "fst (update e store i patch s) = False
       \<and> idb (snd (update e store i patch s)) = idb s
       \<and> ls (snd (update e store i patch s)) = ls s
       \<and> fst (remove e store i s) = False
       \<and> idb (snd (remove e store i s)) = idb s
       \<and> ls (snd (remove e store i s)) = ls s"
proof -
  obtain list s1 where g: "getAll e store s = (list, s1)"
    by (cases "getAll e store s")
  have none: "find (\<lambda>x. rid x = Some i) list = None"
    using assms g by (auto simp: find_None_iff)
  have same: "idb s1 = idb s \<and> ls s1 = ls s"
    using g by (auto simp: getAll_def tx_def split: if_splits)
  show ?thesis
    using g none same by (simp add: update_def remove_def)
qed


theorem update_remove_absent_witness:
  "map rid (fst (getAll (sample_env True NetworkError) ''users'' sample_world)) = [Some 1]
   \<and> fst (update (sample_env True NetworkError) ''users'' 7 approve_patch sample_world) = False
   \<and> idb (snd (update (sample_env True NetworkError) ''users'' 7 approve_patch sample_world))
       = idb sample_world
   \<and> ls (snd (update (sample_env True NetworkError) ''users'' 7 approve_patch sample_world))
       = ls sample_world
   \<and> fst (remove (sample_env True NetworkError) ''users'' 7 sample_world) = False
   \<and> idb (snd (remove (sample_env True NetworkError) ''users'' 7 sample_world)) = idb sample_world
   \<and> ls (snd (remove (sample_env True NetworkError) ''users'' 7 sample_world)) = ls sample_world"
proof -
  have g: "fst (getAll (sample_env True NetworkError) ''users'' sample_world)
             = [\<lparr> rid = Some 1, props = ana \<rparr>]"
    by (simp add: getAll_def tx_def sample_env_def sample_world_def STORES_def row_item_def)
  have h: "\<forall>x \<in> set (fst (getAll (sample_env True NetworkError) ''users'' sample_world)).
             rid x \<noteq> Some 7"
    by (simp add: g)
  show ?thesis
    using update_remove_absent [OF h, of approve_patch] by (simp add: g)
qed

section \<open>The write wrappers\<close>

lemma REMOTE_BASE_set: "REMOTE_BASE e \<noteq> []"
  by (simp add: REMOTE_BASE_def split: option.splits)

lemma remotePost_fail:
  "post_failed (net e (Fetch_POST (remote_url e col) b)) \<Longrightarrow>
   \<exists>err. remotePost e col b s
           = (Inl err, s \<lparr> sent := sent s @ [Fetch_POST (remote_url e col) b] \<rparr>)"
  by (cases "net e (Fetch_POST (remote_url e col) b)") (auto simp: remotePost_def Let_def)

lemma remotePost_ok:
  "net e (Fetch_POST (remote_url e col) b) = Response True bd \<Longrightarrow>
   remotePost e col b s = (Inr (), s \<lparr> sent := sent s @ [Fetch_POST (remote_url e col) b] \<rparr>)"
  by (simp add: remotePost_def Let_def)

lemma remotePost_min_fail:
  "net e (Fetch_POST (remote_url e col) b) = NetworkError \<Longrightarrow>
   remotePost_min e col b s
     = (Inl FetchRejected, s \<lparr> sent := sent s @ [Fetch_POST (remote_url e col) b] \<rparr>)"
  by (simp add: remotePost_min_def Let_def)

lemma remotePost_min_ok:
  "net e (Fetch_POST (remote_url e col) b) = Response ok bd \<Longrightarrow>
   remotePost_min e col b s
     = (Inr (), s \<lparr> sent := sent s @ [Fetch_POST (remote_url e col) b] \<rparr>)"
  by (simp add: remotePost_min_def Let_def)

text \<open>
  C3. When the POST of a write wrapper succeeds, the wrapper returns \<open>true\<close> and the state
  differs from the one before only by the request sent: the local function is not called,
  whatever it is, and object stores and flat storage are as before. In the minimal data
  layer every response counts as a success.
\<close>

theorem remote_success_skips_local:
  "(net e (Fetch_POST (remote_url e col) (add_body p)) = Response True b1 \<longrightarrow>
      addWrapper e col p localPutFn s
        = (JBool True, s \<lparr> sent := sent s @ [Fetch_POST (remote_url e col) (add_body p)] \<rparr>))
   \<and> (net e (Fetch_POST (remote_url e col) (update_body i patch)) = Response True b2 \<longrightarrow>
      updateWrapper e col i patch localUpdateFn s
        = (True, s \<lparr> sent := sent s @ [Fetch_POST (remote_url e col) (update_body i patch)] \<rparr>))
   \<and> (net e (Fetch_POST (remote_url e col) (delete_body i)) = Response True b3 \<longrightarrow>
      deleteWrapper e col i localRemoveFn s
        = (True, s \<lparr> sent := sent s @ [Fetch_POST (remote_url e col) (delete_body i)] \<rparr>))
   \<and> (net e (Fetch_POST (remote_url e col) (add_body p)) = Response ok1 b1 \<longrightarrow>
      addWrapper_min e col p localPutFn s
        = (JBool True, s \<lparr> sent := sent s @ [Fetch_POST (remote_url e col) (add_body p)] \<rparr>))
   \<and> (net e (Fetch_POST (remote_url e col) (update_body i patch)) = Response ok2 b2 \<longrightarrow>
      updateWrapper_min e col i patch localUpdateFn s
        = (True, s \<lparr> sent := sent s @ [Fetch_POST (remote_url e col) (update_body i patch)] \<rparr>))
   \<and> (net e (Fetch_POST (remote_url e col) (delete_body i)) = Response ok3 b3 \<longrightarrow>
      deleteWrapper_min e col i localRemoveFn s
        = (True, s \<lparr> sent := sent s @ [Fetch_POST (remote_url e col) (delete_body i)] \<rparr>))"
  by (simp add: addWrapper_def updateWrapper_def deleteWrapper_def addWrapper_min_def
      updateWrapper_min_def deleteWrapper_min_def REMOTE_BASE_set remotePost_ok
      remotePost_min_ok)

theorem remote_success_skips_local_witness:
  "addWrapper (sample_env True ok_reply) ''users'' new_user
       (put (sample_env True ok_reply) ''users'') sample_world
     = (JBool True, sample_world \<lparr> sent := sent sample_world @
          [Fetch_POST (remote_url (sample_env True ok_reply) ''users'') (add_body new_user)] \<rparr>)
   \<and> updateWrapper (sample_env True ok_reply) ''users'' 1 approve_patch
       (update (sample_env True ok_reply) ''users'') sample_world
     = (True, sample_world \<lparr> sent := sent sample_world @
          [Fetch_POST (remote_url (sample_env True ok_reply) ''users'')
             (update_body 1 approve_patch)] \<rparr>)
   \<and> deleteWrapper (sample_env True ok_reply) ''users'' 1
       (remove (sample_env True ok_reply) ''users'') sample_world
     = (True, sample_world \<lparr> sent := sent sample_world @
          [Fetch_POST (remote_url (sample_env True ok_reply) ''users'') (delete_body 1)] \<rparr>)"
  using remote_success_skips_local [where e = "sample_env True ok_reply" and col = "''users''"
      and p = new_user and i = 1 and patch = approve_patch and s = sample_world
      and ?b1.0 = "Json (JObj [(''ok'', JBool True)])"
      and ?b2.0 = "Json (JObj [(''ok'', JBool True)])"
      and ?b3.0 = "Json (JObj [(''ok'', JBool True)])"
      and localPutFn = "put (sample_env True ok_reply) ''users''"
      and localUpdateFn = "update (sample_env True ok_reply) ''users''"
      and localRemoveFn = "remove (sample_env True ok_reply) ''users''"]
  by (simp add: sample_env_def ok_reply_def)

text \<open>
  C1, as the code has it. When \<open>fetch\<close> rejects, or (in the data layer with the remote
  store) resolves to a response that is not \<open>ok\<close>, the wrapper catches the error and
  returns what the local function returns on the state after the request. The body of the
  response is never read.
\<close>

theorem remote_failure_falls_back:
  "(post_failed (net e (Fetch_POST (remote_url e col) (add_body p))) \<longrightarrow>
      addWrapper e col p localPutFn s
        = (case localPutFn p
                  (s \<lparr> sent := sent s @ [Fetch_POST (remote_url e col) (add_body p)] \<rparr>)
           of (k, s2) \<Rightarrow> (JNum k, s2)))
   \<and> (post_failed (net e (Fetch_POST (remote_url e col) (update_body i patch))) \<longrightarrow>
      updateWrapper e col i patch localUpdateFn s
        = localUpdateFn i patch
            (s \<lparr> sent := sent s @ [Fetch_POST (remote_url e col) (update_body i patch)] \<rparr>))
   \<and> (post_failed (net e (Fetch_POST (remote_url e col) (delete_body i))) \<longrightarrow>
      deleteWrapper e col i localRemoveFn s
        = localRemoveFn i
            (s \<lparr> sent := sent s @ [Fetch_POST (remote_url e col) (delete_body i)] \<rparr>))
   \<and> (net e (Fetch_POST (remote_url e col) (add_body p)) = NetworkError \<longrightarrow>
      addWrapper_min e col p localPutFn s
        = (case localPutFn p
                  (s \<lparr> sent := sent s @ [Fetch_POST (remote_url e col) (add_body p)] \<rparr>)
           of (k, s2) \<Rightarrow> (JNum k, s2)))
   \<and> (net e (Fetch_POST (remote_url e col) (update_body i patch)) = NetworkError \<longrightarrow>
      updateWrapper_min e col i patch localUpdateFn s
        = localUpdateFn i patch
            (s \<lparr> sent := sent s @ [Fetch_POST (remote_url e col) (update_body i patch)] \<rparr>))
   \<and> (net e (Fetch_POST (remote_url e col) (delete_body i)) = NetworkError \<longrightarrow>
      deleteWrapper_min e col i localRemoveFn s
        = localRemoveFn i
            (s \<lparr> sent := sent s @ [Fetch_POST (remote_url e col) (delete_body i)] \<rparr>))"
proof (intro conjI impI)
  assume "post_failed (net e (Fetch_POST (remote_url e col) (add_body p)))"
  from remotePost_fail [OF this, of s]
  show "addWrapper e col p localPutFn s
        = (case localPutFn p
                  (s \<lparr> sent := sent s @ [Fetch_POST (remote_url e col) (add_body p)] \<rparr>)
           of (k, s2) \<Rightarrow> (JNum k, s2))"
    by (auto simp: addWrapper_def REMOTE_BASE_set)
next
  assume "post_failed (net e (Fetch_POST (remote_url e col) (update_body i patch)))"
  from remotePost_fail [OF this, of s]
  show "updateWrapper e col i patch localUpdateFn s
        = localUpdateFn i patch
            (s \<lparr> sent := sent s @ [Fetch_POST (remote_url e col) (update_body i patch)] \<rparr>)"
    by (auto simp: updateWrapper_def REMOTE_BASE_set)
next
  assume "post_failed (net e (Fetch_POST (remote_url e col) (delete_body i)))"
  from remotePost_fail [OF this, of s]
  show "deleteWrapper e col i localRemoveFn s
        = localRemoveFn i
            (s \<lparr> sent := sent s @ [Fetch_POST (remote_url e col) (delete_body i)] \<rparr>)"
    by (auto simp: deleteWrapper_def REMOTE_BASE_set)
qed (simp_all add: addWrapper_min_def updateWrapper_min_def deleteWrapper_min_def
      REMOTE_BASE_set remotePost_min_fail)

theorem remote_failure_falls_back_witness:
  "addWrapper (sample_env False refused_reply) ''users'' new_user
       (put (sample_env False refused_reply) ''users'') empty_world
     = (case put (sample_env False refused_reply) ''users'' new_user
               (empty_world \<lparr> sent := sent empty_world @
                  [Fetch_POST (remote_url (sample_env False refused_reply) ''users'')
                     (add_body new_user)] \<rparr>)
        of (k, s2) \<Rightarrow> (JNum k, s2))
   \<and> fst (addWrapper (sample_env False refused_reply) ''users'' new_user
       (put (sample_env False refused_reply) ''users'') empty_world) = JNum 1
   \<and> updateWrapper (sample_env False refused_reply) ''users'' 1 approve_patch
       (update (sample_env False refused_reply) ''users'') sample_world
     = update (sample_env False refused_reply) ''users'' 1 approve_patch
         (sample_world \<lparr> sent := sent sample_world @
            [Fetch_POST (remote_url (sample_env False refused_reply) ''users'')
               (update_body 1 approve_patch)] \<rparr>)
   \<and> deleteWrapper (sample_env False refused_reply) ''users'' 1
       (remove (sample_env False refused_reply) ''users'') sample_world
     = remove (sample_env False refused_reply) ''users'' 1
         (sample_world \<lparr> sent := sent sample_world @
            [Fetch_POST (remote_url (sample_env False refused_reply) ''users'')
               (delete_body 1)] \<rparr>)
   \<and> deleteWrapper_min (sample_env False NetworkError) ''users'' 1
       (remove (sample_env False NetworkError) ''users'') sample_world
     = remove (sample_env False NetworkError) ''users'' 1
         (sample_world \<lparr> sent := sent sample_world @
            [Fetch_POST (remote_url (sample_env False NetworkError) ''users'')
               (delete_body 1)] \<rparr>)"
proof -
  have f: "post_failed (net (sample_env False refused_reply) rq)" for rq
    by (simp add: sample_env_def refused_reply_def)
  have n: "net (sample_env False NetworkError) rq = NetworkError" for rq
    by (simp add: sample_env_def)
  have k: "fst (put (sample_env False refused_reply) ''users'' new_user
             (empty_world \<lparr> sent := sent empty_world @
                  [Fetch_POST (remote_url (sample_env False refused_reply) ''users'')
                     (add_body new_user)] \<rparr>)) = 1"
    by (simp add: put_def tx_def sample_env_def put_flat_def flat_list_def empty_world_def
        stamp_created_def new_user_def next_flat_id_def Let_def)
  show ?thesis
    using remote_failure_falls_back [where e = "sample_env False refused_reply"
        and col = "''users''" and p = new_user and i = 1 and patch = approve_patch
        and s = empty_world
        and localPutFn = "put (sample_env False refused_reply) ''users''"]
      remote_failure_falls_back [where e = "sample_env False refused_reply"
        and col = "''users''" and p = new_user and i = 1 and patch = approve_patch
        and s = sample_world
        and localUpdateFn = "update (sample_env False refused_reply) ''users''"
        and localRemoveFn = "remove (sample_env False refused_reply) ''users''"]
      remote_failure_falls_back [where e = "sample_env False NetworkError"
        and col = "''users''" and p = new_user and i = 1 and patch = approve_patch
        and s = sample_world
        and localRemoveFn = "remove (sample_env False NetworkError) ''users''"]
      f n k
    by (simp add: split_beta)
qed

text \<open>
  C1, as stated, fails on a response that is \<open>ok\<close> and whose body is malformed: the add
  wrapper returns \<open>true\<close> and leaves both backends as they were, while the local \<open>put\<close>
  would have stored the record.
\<close>

theorem malformed_reply_not_caught:
  "fst (addWrapper (sample_env True garbled_reply) ''users'' new_user
         (put (sample_env True garbled_reply) ''users'') empty_world) = JBool True
   \<and> idb (snd (addWrapper (sample_env True garbled_reply) ''users'' new_user
         (put (sample_env True garbled_reply) ''users'') empty_world)) = idb empty_world
   \<and> ls (snd (addWrapper (sample_env True garbled_reply) ''users'' new_user
         (put (sample_env True garbled_reply) ''users'') empty_world)) = ls empty_world
   \<and> fst (put (sample_env True garbled_reply) ''users'' new_user empty_world) = 1
   \<and> rows (idb (snd (put (sample_env True garbled_reply) ''users'' new_user empty_world))
         ''users'')
       = [(1, [(''name'', JStr ''Eva''), (''createdAt'', JStr ''2024-05-01T10:00:00.000Z'')])]"
  by (simp add: addWrapper_def REMOTE_BASE_set remotePost_def sample_env_def garbled_reply_def
      put_def tx_def STORES_def idb_put_def empty_world_def stamp_created_def new_user_def
      js_or_def Let_def)

section \<open>List reads\<close>

lemma remoteList_state:
  "snd (remoteList e col s) = s \<lparr> sent := sent s @ [Fetch_GET (remote_url e col)] \<rparr>"
  by (simp add: remoteList_def Let_def split: fetch_result.splits body.splits)

lemma remoteList_array:
  "fst (remoteList e col s) = JArr ys \<Longrightarrow>
   net e (Fetch_GET (remote_url e col)) = Response True (Json (JArr ys))"
  by (auto simp: remoteList_def Let_def split: fetch_result.splits body.splits if_splits)

text \<open>
  C9. When the GET resolves to an \<open>ok\<close> response whose body parses to an array, the list
  wrapper returns that array and the state differs only by the request sent: the local
  function is not called, no transaction is attempted and nothing is stored. On every other
  outcome (a rejected fetch, a response that is not \<open>ok\<close>, a body that does not parse or is
  not an array) it returns the result of the local read.
\<close>

theorem list_remote_or_local:
  "(net e (Fetch_GET (remote_url e col)) = Response True (Json (JArr xs)) \<longrightarrow>
      listWrapper e col localFn s
        = (Remote_array xs, s \<lparr> sent := sent s @ [Fetch_GET (remote_url e col)] \<rparr>))
   \<and> ((\<forall>ys. net e (Fetch_GET (remote_url e col)) \<noteq> Response True (Json (JArr ys))) \<longrightarrow>
      listWrapper e col localFn s
        = (case localFn (s \<lparr> sent := sent s @ [Fetch_GET (remote_url e col)] \<rparr>)
           of (l, s2) \<Rightarrow> (Local_items l, s2)))"
proof (intro conjI impI)
  assume "net e (Fetch_GET (remote_url e col)) = Response True (Json (JArr xs))"
  then show "listWrapper e col localFn s
        = (Remote_array xs, s \<lparr> sent := sent s @ [Fetch_GET (remote_url e col)] \<rparr>)"
    by (simp add: listWrapper_def REMOTE_BASE_set remoteList_def Let_def)
next
  assume no: "\<forall>ys. net e (Fetch_GET (remote_url e col)) \<noteq> Response True (Json (JArr ys))"
  obtain r where r: "remoteList e col s
      = (r, s \<lparr> sent := sent s @ [Fetch_GET (remote_url e col)] \<rparr>)"
    using remoteList_state [of e col s] by (cases "remoteList e col s") simp
  have "\<forall>ys. r \<noteq> JArr ys"
    using no r remoteList_array [of e col s] by auto
  then show "listWrapper e col localFn s
        = (case localFn (s \<lparr> sent := sent s @ [Fetch_GET (remote_url e col)] \<rparr>)
           of (l, s2) \<Rightarrow> (Local_items l, s2))"
    using r by (cases r) (simp_all add: listWrapper_def REMOTE_BASE_set)
qed

theorem list_remote_or_local_witness:
  "listWrapper (sample_env True (Response True (Json (JArr [JNum 4, JNull])))) ''users''
       (getAll (sample_env True (Response True (Json (JArr [JNum 4, JNull])))) ''users'')
       sample_world
     = (Remote_array [JNum 4, JNull], sample_world \<lparr> sent := sent sample_world @
          [Fetch_GET (remote_url (sample_env True (Response True (Json (JArr [JNum 4, JNull]))))
             ''users'')] \<rparr>)
   \<and> fst (listWrapper (sample_env True ok_reply) ''users''
            (getAll (sample_env True ok_reply) ''users'') sample_world)
     = Local_items [\<lparr> rid = Some 1, props = ana \<rparr>]
   \<and> fst (listWrapper (sample_env False garbled_reply) ''users''
            (getAll (sample_env False garbled_reply) ''users'') sample_world)
     = Local_items [luis]"
proof -
  have a: "net (sample_env True (Response True (Json (JArr [JNum 4, JNull])))) rq
             = Response True (Json (JArr [JNum 4, JNull]))" for rq
    by (simp add: sample_env_def)
  have b: "\<forall>ys. net (sample_env True ok_reply) rq \<noteq> Response True (Json (JArr ys))" for rq
    by (simp add: sample_env_def ok_reply_def)
  have c: "\<forall>ys. net (sample_env False garbled_reply) rq \<noteq> Response True (Json (JArr ys))"
    for rq
    by (simp add: sample_env_def garbled_reply_def)
  have g1: "fst (getAll (sample_env True ok_reply) ''users'' (sample_world \<lparr> sent := q \<rparr>))
              = [\<lparr> rid = Some 1, props = ana \<rparr>]" for q
    by (simp add: getAll_def tx_def sample_env_def sample_world_def STORES_def row_item_def)
  have g2: "fst (getAll (sample_env False garbled_reply) ''users''
                   (sample_world \<lparr> sent := q \<rparr>)) = [luis]" for q
    by (simp add: getAll_def tx_def sample_env_def sample_world_def flat_list_def)
  show ?thesis
    using list_remote_or_local [where e = "sample_env True (Response True (Json (JArr [JNum 4, JNull])))"
        and col = "''users''" and xs = "[JNum 4, JNull]" and s = sample_world
        and localFn = "getAll (sample_env True (Response True (Json (JArr [JNum 4, JNull])))) ''users''"]
      list_remote_or_local [where e = "sample_env True ok_reply"
        and col = "''users''" and s = sample_world
        and localFn = "getAll (sample_env True ok_reply) ''users''"]
      list_remote_or_local [where e = "sample_env False garbled_reply"
        and col = "''users''" and s = sample_world
        and localFn = "getAll (sample_env False garbled_reply) ''users''"]
      a b c g1 g2
    by (simp add: split_beta)
qed

section \<open>Routing of the domain API\<close>

lemma sent_getAll: "sent (snd (getAll e store s)) = sent s"
  by (simp add: getAll_def tx_def)









text \<open>
  C2 on the minimal data layer: with the remote endpoint answering, \<open>deleteUser\<close> and
  \<open>addUser\<close> send no request at all and write to the local store directly.
\<close>

theorem minimal_api_bypasses_wrappers:
  "REMOTE_BASE (sample_env True ok_reply) = ''/api/store''
   \<and> deleteUser_min (sample_env True ok_reply) 1 sample_world
       = (True, sample_world \<lparr> idb := (idb sample_world)(''users'' := \<lparr> rows = [], keygen = 2 \<rparr>),
                               tick := 2 \<rparr>)
   \<and> sent (snd (deleteUser_min (sample_env True ok_reply) 1 sample_world)) = []
   \<and> fst (addUser_min (sample_env True ok_reply) new_user sample_world) = 2
   \<and> sent (snd (addUser_min (sample_env True ok_reply) new_user sample_world)) = []
   \<and> sent (snd (deleteUser (sample_env True ok_reply) 1 sample_world))
       = [Fetch_POST ''/api/store/users'' (delete_body 1)]"
  by (simp add: deleteUser_min_def addUser_min_def remove_def getAll_def tx_def sample_env_def
      sample_world_def STORES_def row_item_def idb_delete_def REMOTE_BASE_def
      put_def idb_put_def stamp_created_def new_user_def js_or_def Let_def
      deleteUser_def deleteWrapper_def remotePost_def ok_reply_def remote_url_def)

section \<open>Requests and their ticket numbers\<close>

lemma fold_update_other:
  "k \<notin> fst ` set src \<Longrightarrow> map_of (fold (\<lambda>(k, v). AList.update k v) src acc) k = map_of acc k"
  by (induction src arbitrary: acc) (auto simp: update_conv')

lemma assign_keeps:
  "map_of (props src) k = None \<Longrightarrow> map_of (props (assign t src)) k = map_of (props t) k"
  by (simp add: assign_def fold_update_other map_of_eq_None_iff)













section \<open>Creation time\<close>

lemma upsert_member: "(k, p) \<in> set (upsert k p rs)"
  by (induction rs) auto

lemma replace_first_member: "find P xs = Some x \<Longrightarrow> y \<in> set (replace_first P y xs)"
  by (induction xs) (auto split: if_splits)

lemma stamp_created_value:
  "map_of (props (stamp_created now v)) ''createdAt''
     = (if truthy (map_of (props v) ''createdAt'') then map_of (props v) ''createdAt''
        else Some (JStr now))"
  by (auto simp: stamp_created_def update_conv' js_or_def split: option.splits)

lemma put_flat_stores:
  "stored_in (snd (put_flat store v s)) store \<lparr> rid = Some (fst (put_flat store v s)), props = props v \<rparr>"
  by (cases v) (simp add: put_flat_def stored_in_def flat_list_def Let_def)

lemma put_stores:
  "stored_in (snd (put e store v s)) store
     \<lparr> rid = Some (fst (put e store v s)), props = props (stamp_created (clock e (tick s)) v) \<rparr>"
proof (cases "idb_put store (stamp_created (clock e (tick s)) v) (idb s store)")
  case None
  then show ?thesis using put_flat_stores by (simp add: put_def tx_def Let_def)
next
  case (Some a)
  obtain k st where a: "a = (k, st)" by (cases a)
  have "(k, props (stamp_created (clock e (tick s)) v)) \<in> set (rows st)"
    using Some a by (auto simp: idb_put_def Let_def upsert_member split: if_splits)
  then have "row_item (k, props (stamp_created (clock e (tick s)) v)) \<in> row_item ` set (rows st)"
    by (rule imageI)
  then show ?thesis
    using Some a put_flat_stores by (simp add: put_def tx_def Let_def stored_in_def row_item_def)
qed

lemma patched_created:
  "map_of (props patch) ''createdAt'' = None \<Longrightarrow>
   map_of (props (patched now it patch)) ''createdAt'' = map_of (props it) ''createdAt''"
  by (simp add: patched_def assign_keeps)

lemma patched_rid: "rid it = Some i \<Longrightarrow> \<exists>k. rid (patched now it patch) = Some k"
  by (simp add: patched_def assign_def split: option.splits)

lemma update_stores:
  assumes f: "find (\<lambda>x. rid x = Some i) (fst (getAll e store s)) = Some it"
  shows "fst (update e store i patch s) = True
       \<and> stored_in (snd (update e store i patch s)) store
           (patched (clock e (tick (snd (getAll e store s)))) it patch)"
proof -
  obtain list s1 where g: "getAll e store s = (list, s1)" by (cases "getAll e store s")
  let ?it = "patched (clock e (tick s1)) it patch"
  have fl: "find (\<lambda>x. rid x = Some i) list = Some it" using f g by simp
  then have "rid it = Some i" by (auto simp: find_Some_iff)
  then obtain k where k: "rid ?it = Some k" using patched_rid by blast
  have m: "?it \<in> set (replace_first (\<lambda>x. rid x = Some i) ?it list)"
    using fl by (rule replace_first_member)
  have it: "?it = \<lparr> rid = Some k, props = props ?it \<rparr>" using k by (cases ?it) simp
  show ?thesis
  proof (cases "store \<in> set STORES \<and> avail e (tick s1)")
    case False
    then show ?thesis using g fl m
      by (auto simp: update_def tx_def Let_def stored_in_def flat_list_def)
  next
    case True
    show ?thesis
    proof (cases "idb_put store ?it (idb s1 store)")
      case None
      then show ?thesis using g fl m True
        by (auto simp: update_def tx_def Let_def stored_in_def flat_list_def)
    next
      case (Some a)
      obtain k' st where a: "a = (k', st)" by (cases a)
      have "(k, props ?it) \<in> set (rows st)"
        using Some a k by (auto simp: idb_put_def Let_def upsert_member split: if_splits)
      then have "row_item (k, props ?it) \<in> row_item ` set (rows st)" by (rule imageI)
      then have "?it \<in> row_item ` set (rows st)" using it by (simp add: row_item_def)
      then show ?thesis using g fl True Some a
        by (simp add: update_def tx_def Let_def stored_in_def)
    qed
  qed
qed

text \<open>
  C6, as the code has it. \<open>put\<close> stores the record with the \<open>createdAt\<close> it came with when
  that value is truthy, and with the clock's time otherwise. An \<open>update\<close> of an existing
  record returns true and stores the patched record, whose \<open>createdAt\<close> is the one it had
  before whenever the patch has no \<open>createdAt\<close> of its own.
\<close>

theorem createdAt_kept:
  "stored_in (snd (put e store v s)) store
     \<lparr> rid = Some (fst (put e store v s)), props = props (stamp_created (clock e (tick s)) v) \<rparr>
   \<and> map_of (props (stamp_created now v)) ''createdAt''
       = (if truthy (map_of (props v) ''createdAt'') then map_of (props v) ''createdAt''
          else Some (JStr now))
   \<and> (find (\<lambda>x. rid x = Some i) (fst (getAll e store s)) = Some it
        \<and> map_of (props patch) ''createdAt'' = None \<longrightarrow>
      fst (update e store i patch s) = True
      \<and> stored_in (snd (update e store i patch s)) store
          (patched (clock e (tick (snd (getAll e store s)))) it patch)
      \<and> map_of (props (patched (clock e (tick (snd (getAll e store s)))) it patch)) ''createdAt''
          = map_of (props it) ''createdAt'')"
  using put_stores stamp_created_value update_stores patched_created by simp

theorem createdAt_kept_witness:
  "find (\<lambda>x. rid x = Some 1) (fst (getAll (sample_env True NetworkError) ''users'' sample_world))
     = Some \<lparr> rid = Some 1, props = ana \<rparr>
   \<and> fst (update (sample_env True NetworkError) ''users'' 1 approve_patch sample_world) = True
   \<and> stored_in (snd (update (sample_env True NetworkError) ''users'' 1 approve_patch sample_world))
       ''users''
       (patched (clock (sample_env True NetworkError)
                   (tick (snd (getAll (sample_env True NetworkError) ''users'' sample_world))))
          \<lparr> rid = Some 1, props = ana \<rparr> approve_patch)
   \<and> map_of (props (patched (clock (sample_env True NetworkError)
                   (tick (snd (getAll (sample_env True NetworkError) ''users'' sample_world))))
          \<lparr> rid = Some 1, props = ana \<rparr> approve_patch)) ''createdAt''
       = Some (JStr ''2024-01-01T00:00:00.000Z'')"
proof -
  have g: "fst (getAll (sample_env True NetworkError) ''users'' sample_world)
             = [\<lparr> rid = Some 1, props = ana \<rparr>]"
    by (simp add: getAll_def tx_def sample_env_def sample_world_def STORES_def row_item_def)
  have f: "find (\<lambda>x. rid x = Some 1) (fst (getAll (sample_env True NetworkError) ''users''
             sample_world)) = Some \<lparr> rid = Some 1, props = ana \<rparr>"
    by (simp add: g)
  have p: "map_of (props approve_patch) ''createdAt'' = None"
    by (simp add: approve_patch_def)
  have a: "map_of (props \<lparr> rid = Some 1, props = ana \<rparr>) ''createdAt''
             = Some (JStr ''2024-01-01T00:00:00.000Z'')"
    by (simp add: ana_def)
  show ?thesis
    using createdAt_kept [where e = "sample_env True NetworkError" and store = "''users''"
        and s = sample_world and i = 1 and patch = approve_patch
        and it = "\<lparr> rid = Some 1, props = ana \<rparr>"] f p a
    by simp
qed

text \<open>
  C6, as stated, fails for a patch that carries a \<open>createdAt\<close>: the update overwrites the
  creation time of the stored record.
\<close>

theorem update_overwrites_createdAt:
  "rows (idb sample_world ''users'')
     = [(1, [(''name'', JStr ''Ana''), (''createdAt'', JStr ''2024-01-01T00:00:00.000Z'')])]
   \<and> fst (update (sample_env True NetworkError) ''users'' 1 backdate_patch sample_world) = True
   \<and> rows (idb (snd (update (sample_env True NetworkError) ''users'' 1 backdate_patch
                       sample_world)) ''users'')
     = [(1, [(''name'', JStr ''Ana''), (''createdAt'', JStr ''1999-01-01T00:00:00.000Z''),
             (''updatedAt'', JStr ''2024-05-01T10:00:00.000Z'')])]"
  by (simp add: update_def getAll_def tx_def sample_env_def sample_world_def STORES_def
      row_item_def ana_def patched_def assign_def backdate_patch_def idb_put_def Let_def)

section \<open>The add operation of the handler\<close>






section \<open>Identifiers\<close>











lemma upsert_append: "\<forall>x \<in> set (map fst rs). x < k \<Longrightarrow> upsert k p rs = rs @ [(k, p)]"
  by (induction rs) auto














section \<open>Export and import\<close>

lemma getAll_up:
  "\<forall>t. avail e t \<Longrightarrow> n \<in> set STORES \<Longrightarrow>
   getAll e n s = (map row_item (rows (idb s n)), s \<lparr> tick := Suc (tick s) \<rparr>)"
  by (simp add: getAll_def tx_def)

lemma clearStore_up:
  "\<forall>t. avail e t \<Longrightarrow> n \<in> set STORES \<Longrightarrow>
   snd (clearStore e n s)
     = s \<lparr> tick := Suc (tick s), idb := (idb s)(n := idb_clear (idb s n)) \<rparr>"
  by (simp add: clearStore_def tx_def)

lemma export_stores_up:
  "\<forall>t. avail e t \<Longrightarrow> set ns \<subseteq> set STORES \<Longrightarrow>
   fst (export_stores e ns s) = map (\<lambda>n. (n, map row_item (rows (idb s n)))) ns
   \<and> idb (snd (export_stores e ns s)) = idb s"
proof (induction ns arbitrary: s)
  case Nil
  then show ?case by simp
next
  case (Cons n ns)
  let ?s1 = "s \<lparr> tick := Suc (tick s) \<rparr>"
  have g: "getAll e n s = (map row_item (rows (idb s n)), ?s1)"
    using Cons.prems by (simp add: getAll_up)
  have "fst (export_stores e ns ?s1) = map (\<lambda>n. (n, map row_item (rows (idb ?s1 n)))) ns
        \<and> idb (snd (export_stores e ns ?s1)) = idb ?s1"
    using Cons.prems by (intro Cons.IH) simp_all
  then show ?case using g by (simp add: split_beta)
qed

lemma clear_stores_up:
  "\<forall>t. avail e t \<Longrightarrow> set ns \<subseteq> set STORES \<Longrightarrow>
   rows (idb (clear_stores e ns s) n) = (if n \<in> set ns then [] else rows (idb s n))"
proof (induction ns arbitrary: s)
  case Nil
  then show ?case by simp
next
  case (Cons m ns)
  let ?s1 = "s \<lparr> tick := Suc (tick s), idb := (idb s)(m := idb_clear (idb s m)) \<rparr>"
  have c: "snd (clearStore e m s) = ?s1" using Cons.prems by (simp add: clearStore_up)
  have "rows (idb (clear_stores e ns ?s1) n) = (if n \<in> set ns then [] else rows (idb ?s1 n))"
    using Cons.prems by (intro Cons.IH) simp_all
  then show ?case using c by (simp add: idb_clear_def)
qed

lemma stamp_created_same:
  "truthy (map_of (props v) ''createdAt'') \<Longrightarrow> stamp_created now v = v"
proof -
  assume t: "truthy (map_of (props v) ''createdAt'')"
  then obtain c where c: "map_of (props v) ''createdAt'' = Some c" by (cases "map_of (props v) ''createdAt''") auto
  then have "js_or (map_of (props v) ''createdAt'') (JStr now) = c" using t by (simp add: js_or_def)
  then show ?thesis using c by (simp add: stamp_created_def update_triv)
qed

lemma papeleta_clash_append:
  "\<not> papeleta_clash k p (ys @ zs) \<Longrightarrow> \<not> papeleta_clash k p ys"
  by (auto simp: papeleta_clash_def split: option.splits)

lemma put_back:
  assumes "\<forall>t. avail e t" and "n \<in> set STORES"
      and "truthy (map_of p ''createdAt'')"
      and "\<forall>x \<in> set (map fst (rows (idb s n))). x < k"
      and "n = ''requests'' \<longrightarrow> \<not> papeleta_clash k p (rows (idb s n))"
  shows "rows (idb (snd (put e n (row_item (k, p)) s)) n) = rows (idb s n) @ [(k, p)]
       \<and> (\<forall>m. m \<noteq> n \<longrightarrow> idb (snd (put e n (row_item (k, p)) s)) m = idb s m)"
proof -
  have st: "stamp_created (clock e (tick s)) (row_item (k, p)) = row_item (k, p)"
    using assms(3) by (intro stamp_created_same) (simp add: row_item_def)
  have "idb_put n (row_item (k, p)) (idb s n)
          = Some (k, \<lparr> rows = rows (idb s n) @ [(k, p)],
                       keygen = (if keygen (idb s n) \<le> k then k + 1 else keygen (idb s n)) \<rparr>)"
    using assms(5) upsert_append [OF assms(4)] by (simp add: idb_put_def row_item_def)
  then show ?thesis using assms(1,2) st by (simp add: put_def tx_def Let_def)
qed

lemma put_each_back:
  assumes "\<forall>t. avail e t" and "n \<in> set STORES"
  shows "sorted_wrt (<) (map fst (rows (idb s n) @ xs)) \<Longrightarrow>
         \<forall>r \<in> set xs. truthy (map_of (snd r) ''createdAt'') \<Longrightarrow>
         n = ''requests'' \<longrightarrow>
           (\<forall>r \<in> set xs. \<not> papeleta_clash (fst r) (snd r) (rows (idb s n) @ xs)) \<Longrightarrow>
         rows (idb (snd (put_each e n (map row_item xs) s)) n) = rows (idb s n) @ xs
         \<and> (\<forall>m. m \<noteq> n \<longrightarrow> idb (snd (put_each e n (map row_item xs) s)) m = idb s m)"
proof (induction xs arbitrary: s)
  case Nil
  then show ?case by simp
next
  case (Cons x xs)
  obtain k p where x: "x = (k, p)" by (cases x)
  let ?s1 = "snd (put e n (row_item (k, p)) s)"
  have below: "\<forall>y \<in> set (map fst (rows (idb s n))). y < k"
    using Cons.prems(1) x by (auto simp: sorted_wrt_append)
  have noclash: "n = ''requests'' \<longrightarrow> \<not> papeleta_clash k p (rows (idb s n))"
    using Cons.prems(3) x papeleta_clash_append [of k p "rows (idb s n)" "x # xs"] by auto
  have tr: "truthy (map_of p ''createdAt'')" using Cons.prems(2) x by simp
  have one: "rows (idb ?s1 n) = rows (idb s n) @ [(k, p)]
             \<and> (\<forall>m. m \<noteq> n \<longrightarrow> idb ?s1 m = idb s m)"
    using put_back [OF assms tr below] noclash by simp
  then have r1: "rows (idb ?s1 n) @ xs = rows (idb s n) @ x # xs" using x by simp
  have "rows (idb (snd (put_each e n (map row_item xs) ?s1)) n) = rows (idb ?s1 n) @ xs
        \<and> (\<forall>m. m \<noteq> n \<longrightarrow> idb (snd (put_each e n (map row_item xs) ?s1)) m = idb ?s1 m)"
  proof (rule Cons.IH)
    show "sorted_wrt (<) (map fst (rows (idb ?s1 n) @ xs))"
      using Cons.prems(1) by (simp only: r1)
    show "\<forall>r \<in> set xs. truthy (map_of (snd r) ''createdAt'')" using Cons.prems(2) by simp
    show "n = ''requests'' \<longrightarrow>
           (\<forall>r \<in> set xs. \<not> papeleta_clash (fst r) (snd r) (rows (idb ?s1 n) @ xs))"
      using Cons.prems(3) by (simp only: r1) simp
  qed
  then show ?case using one r1 x by (simp add: split_beta)
qed


lemma import_stores_back:
  assumes "\<forall>t. avail e t"
  shows "set ns \<subseteq> set STORES \<Longrightarrow> distinct ns \<Longrightarrow>
         \<forall>n \<in> set ns. rows (idb s n) = [] \<Longrightarrow>
         \<forall>n \<in> set ns. map_of data n = Some (map row_item (T n))
            \<and> sorted_wrt (<) (map fst (T n))
            \<and> (\<forall>r \<in> set (T n). truthy (map_of (snd r) ''createdAt''))
            \<and> (n = ''requests'' \<longrightarrow> papeleta_unique (T n)) \<Longrightarrow>
         (\<forall>n \<in> set ns. rows (idb (import_stores e data ns s) n) = T n)
         \<and> (\<forall>m. m \<notin> set ns \<longrightarrow> idb (import_stores e data ns s) m = idb s m)"
proof (induction ns arbitrary: s)
  case Nil
  then show ?case by simp
next
  case (Cons n ns)
  let ?s1 = "snd (put_each e n (map row_item (T n)) s)"
  have n: "n \<in> set STORES" using Cons.prems(1) by simp
  have e: "rows (idb s n) = []" using Cons.prems(3) by simp
  have d: "map_of data n = Some (map row_item (T n))" using Cons.prems(4) by simp
  have "rows (idb ?s1 n) = rows (idb s n) @ T n
        \<and> (\<forall>m. m \<noteq> n \<longrightarrow> idb ?s1 m = idb s m)"
  proof (rule put_each_back [OF assms n])
    show "sorted_wrt (<) (map fst (rows (idb s n) @ T n))" using Cons.prems(4) e by simp
    show "\<forall>r \<in> set (T n). truthy (map_of (snd r) ''createdAt'')" using Cons.prems(4) by simp
    show "n = ''requests'' \<longrightarrow>
            (\<forall>r \<in> set (T n). \<not> papeleta_clash (fst r) (snd r) (rows (idb s n) @ T n))"
      using Cons.prems(4) e by (auto simp: papeleta_unique_def list_all_iff)
  qed
  then have one: "rows (idb ?s1 n) = T n" and other: "\<forall>m. m \<noteq> n \<longrightarrow> idb ?s1 m = idb s m"
    using e by simp_all
  have rest: "(\<forall>n' \<in> set ns. rows (idb (import_stores e data ns ?s1) n') = T n')
        \<and> (\<forall>m. m \<notin> set ns \<longrightarrow> idb (import_stores e data ns ?s1) m = idb ?s1 m)"
  proof (rule Cons.IH)
    show "set ns \<subseteq> set STORES" using Cons.prems(1) by simp
    show "distinct ns" using Cons.prems(2) by simp
    show "\<forall>n' \<in> set ns. rows (idb ?s1 n') = []"
      using Cons.prems(2,3) other by auto
    show "\<forall>n \<in> set ns. map_of data n = Some (map row_item (T n))
            \<and> sorted_wrt (<) (map fst (T n))
            \<and> (\<forall>r \<in> set (T n). truthy (map_of (snd r) ''createdAt''))
            \<and> (n = ''requests'' \<longrightarrow> papeleta_unique (T n))"
      using Cons.prems(4) by simp
  qed
  have step: "import_stores e data (n # ns) s = import_stores e data ns ?s1"
    using d by simp
  have "n \<notin> set ns" using Cons.prems(2) by simp
  then have "rows (idb (import_stores e data ns ?s1) n) = T n" using rest one by simp
  moreover have "\<forall>m. m \<notin> set (n # ns) \<longrightarrow> idb (import_stores e data ns ?s1) m = idb s m"
    using rest other by simp
  ultimately show ?case using rest unfolding step by simp
qed

lemma map_of_exported:
  "n \<in> set ns \<Longrightarrow> map_of (map (\<lambda>n. (n, f n)) ns) n = Some (f n)"
  by (induction ns) auto

text \<open>
  C8, as the code has it. With the structured store up at every step, and every stored
  record carrying a truthy \<open>createdAt\<close>, \<open>exportAll\<close> returns the four collections, clearing
  them leaves them empty, and \<open>importAll\<close> of the exported data returns true and brings every
  collection back to the records it had, each under its identifier.
\<close>

theorem export_clear_import_restores:
  assumes "\<forall>t. avail e t"
      and "\<forall>n \<in> set STORES. sorted_wrt (<) (map fst (rows (idb s n)))"
      and "papeleta_unique (rows (idb s ''requests''))"
      and "\<forall>n \<in> set STORES. \<forall>r \<in> set (rows (idb s n)). truthy (map_of (snd r) ''createdAt'')"
      and "exportAll e s = (data, s1)"
      and "s2 = clear_stores e STORES s1"
      and "importAll e data s2 = (ok, s3)"
  shows "ok \<and> data = map (\<lambda>n. (n, fst (getAll e n s))) STORES
       \<and> (\<forall>n \<in> set STORES. fst (getAll e n s2) = []
            \<and> fst (getAll e n s3) = fst (getAll e n s)
            \<and> rows (idb s3 n) = rows (idb s n))"
proof -
  have ex: "data = map (\<lambda>n. (n, map row_item (rows (idb s n)))) STORES" and i1: "idb s1 = idb s"
    using export_stores_up [OF assms(1) subset_refl, of s] assms(5) by (simp_all add: exportAll_def)
  have c2: "\<forall>n \<in> set STORES. rows (idb s2 n) = []"
    using clear_stores_up [OF assms(1) subset_refl, of s1] assms(6) by simp
  have s3: "s3 = import_stores e data STORES (clear_stores e STORES s2)" and ok: "ok"
    using assms(7) by (auto simp: importAll_def)
  have c3: "\<forall>n \<in> set STORES. rows (idb (clear_stores e STORES s2) n) = []"
    using clear_stores_up [OF assms(1) subset_refl, of s2] by simp
  have dist: "distinct STORES" by (simp add: STORES_def)
  have "(\<forall>n \<in> set STORES. rows (idb s3 n) = rows (idb s n))
        \<and> (\<forall>m. m \<notin> set STORES \<longrightarrow> idb s3 m = idb (clear_stores e STORES s2) m)"
    unfolding s3
  proof (rule import_stores_back [OF assms(1) subset_refl dist c3])
    show "\<forall>n \<in> set STORES. map_of data n = Some (map row_item (rows (idb s n)))
            \<and> sorted_wrt (<) (map fst (rows (idb s n)))
            \<and> (\<forall>r \<in> set (rows (idb s n)). truthy (map_of (snd r) ''createdAt''))
            \<and> (n = ''requests'' \<longrightarrow> papeleta_unique (rows (idb s n)))"
      using assms(2,3,4) by (simp add: ex map_of_exported)
  qed
  then have r: "\<forall>n \<in> set STORES. rows (idb s3 n) = rows (idb s n)" by simp
  have "data = map (\<lambda>n. (n, fst (getAll e n s))) STORES"
    using assms(1) by (simp add: ex getAll_up)
  then show ?thesis using ok r c2 assms(1) by (simp add: getAll_up)
qed

theorem export_clear_import_restores_witness:
  "fst (getAll (sample_env True NetworkError) ''users'' sample_world)
     = [\<lparr> rid = Some 1, props = ana \<rparr>]
   \<and> fst (getAll (sample_env True NetworkError) ''users''
        (clear_stores (sample_env True NetworkError) STORES
           (snd (exportAll (sample_env True NetworkError) sample_world)))) = []
   \<and> fst (getAll (sample_env True NetworkError) ''users''
        (snd (importAll (sample_env True NetworkError)
           (fst (exportAll (sample_env True NetworkError) sample_world))
           (clear_stores (sample_env True NetworkError) STORES
              (snd (exportAll (sample_env True NetworkError) sample_world))))))
     = [\<lparr> rid = Some 1, props = ana \<rparr>]"
proof -
  have h1: "\<forall>t. avail (sample_env True NetworkError) t"
    by (simp add: sample_env_def)
  have h2: "\<forall>n \<in> set STORES. sorted_wrt (<) (map fst (rows (idb sample_world n)))"
    by (simp add: sample_world_def)
  have h3: "papeleta_unique (rows (idb sample_world ''requests''))"
    by (simp add: sample_world_def papeleta_unique_def)
  have h4: "\<forall>n \<in> set STORES. \<forall>r \<in> set (rows (idb sample_world n)).
              truthy (map_of (snd r) ''createdAt'')"
    by (simp add: sample_world_def ana_def)
  have g: "fst (getAll (sample_env True NetworkError) ''users'' sample_world)
             = [\<lparr> rid = Some 1, props = ana \<rparr>]"
    by (simp add: getAll_def tx_def sample_env_def sample_world_def STORES_def row_item_def)
  have u: "''users'' \<in> set STORES" by (simp add: STORES_def)
  show ?thesis
    using export_clear_import_restores [OF h1 h2 h3 h4 prod.collapse [symmetric] refl
        prod.collapse [symmetric], THEN conjunct2, THEN conjunct2, THEN bspec, OF u] g
    by simp
qed

text \<open>
  C8, as stated, fails for a record whose \<open>createdAt\<close> is falsy, here the empty string an
  update has left: the import stamps it with the time of the import, so the collection does
  not come back to the record it had.
\<close>

theorem import_restamps_blank_createdAt:
  "rows (idb blanked_world ''users'')
     = [(1, [(''name'', JStr ''Ana''), (''createdAt'', JStr []),
             (''updatedAt'', JStr ''2024-05-01T10:00:00.000Z'')])]
   \<and> rows (idb (snd (importAll (sample_env True NetworkError)
          (fst (exportAll (sample_env True NetworkError) blanked_world))
          (clear_stores (sample_env True NetworkError) STORES
             (snd (exportAll (sample_env True NetworkError) blanked_world))))) ''users'')
     = [(1, [(''name'', JStr ''Ana''), (''createdAt'', JStr ''2024-05-01T10:00:00.000Z''),
             (''updatedAt'', JStr ''2024-05-01T10:00:00.000Z'')])]"
  by code_simp

end
